theory Spec2Isabelle
  imports Complex_Main "HOL-Library.Word" "HOL-Library.AList" "HOL-Library.Multiset" "HOL-Library.Log_Nat"
begin

section \<open>The binlog change tracker (pkg/repl/client.go)\<close>

subsection \<open>Data\<close>

text \<open>
  Errors are values. The messages are the ones the Go code builds with \<open>errors.New\<close>;
  an error handed up from a collaborator (the canal constructor, the retryable
  transaction) carries that collaborator's own message.
\<close>

datatype error = Err string

text \<open>\<open>mysql.Position\<close>: a log-file name and a 32-bit offset.\<close>

record Position =
  Name :: string
  Pos :: "32 word"

text \<open>
  \<open>table.TableInfo\<close>, with the fields and methods the client uses. The type \<open>'v\<close> is the
  type of a column value (\<open>interface{}\<close> in Go); a row image is a list of column
  values. \<open>ExtractPrimaryKeyFromRowImage\<close> is a method of the table package, outside
  the translated files, and is taken as a parameter. \<open>Chunker\<close> is the attached chunker
  (\<open>None\<close> for the nil interface); the client only ever calls its
  \<open>KeyAboveHighWatermark\<close>, so the chunker is represented by that predicate.
\<close>

record 'v TableInfo =
  SchemaName :: string
  TableName :: string
  ExtractPrimaryKeyFromRowImage :: "'v list \<Rightarrow> 'v list"
  Chunker :: "('v \<Rightarrow> bool) option"

text \<open>
  The \<open>Client\<close> struct. \<open>binlogChangeset\<close> is Go's \<open>map[string]bool\<close>, kept as an
  association list that \<open>keyHasChanged\<close> updates in place, so that "a key appears at
  most once" is a property to prove and \<open>len\<close> is the length of the list.
  \<open>binlogChangesetDelta\<close> is an \<open>int64\<close> that only ever holds a map length minus a
  multiple of the batch size, far from the 64-bit range, and is kept as an \<open>int\<close>; the
  two event counters are \<open>int64\<close> counters that wrap. A nil position pointer is \<open>None\<close>.
  \<open>canalRunFrom\<close> records the background consumer: \<open>None\<close> until \<open>go c.startCanal()\<close>
  has been issued, then the position handed to \<open>canal.RunFrom\<close>.
\<close>

record 'v Client =
  binlogChangeset :: "(string \<times> bool) list"
  binlogChangesetDelta :: int
  binlogPosSynced :: "Position option"
  binlogPosInMemory :: "Position option"
  lastLogFileName :: string
  canalCreated :: bool
  canalRunFrom :: "Position option"
  changesetRowsCount :: "64 word"
  changesetRowsEventCount :: "64 word"
  table :: "'v TableInfo"
  disableKeyAboveWatermarkOptimization :: bool



subsection \<open>Construction and accessors\<close>

text \<open>\<open>NewClient\<close> sets the table and an empty changeset; every other field has Go's
  zero value.\<close>

definition NewClient :: "'v TableInfo \<Rightarrow> 'v Client" where
  "NewClient tbl =
     \<lparr> binlogChangeset = [],
       binlogChangesetDelta = 0,
       binlogPosSynced = None,
       binlogPosInMemory = None,
       lastLogFileName = [],
       canalCreated = False,
       canalRunFrom = None,
       changesetRowsCount = 0,
       changesetRowsEventCount = 0,
       table = tbl,
       disableKeyAboveWatermarkOptimization = False \<rparr>"


definition SetPos :: "'v Client \<Rightarrow> Position option \<Rightarrow> 'v Client" where
  "SetPos c pos = c\<lparr>binlogPosSynced := pos\<rparr>"

definition GetBinlogApplyPosition :: "'v Client \<Rightarrow> Position option" where
  "GetBinlogApplyPosition c = binlogPosSynced c"

definition GetDeltaLen :: "'v Client \<Rightarrow> int" where
  "GetDeltaLen c = int (length (binlogChangeset c)) + binlogChangesetDelta c"


subsection \<open>Row events\<close>


text \<open>
  The guard of \<open>OnRow\<close>:
  \<^verbatim>\<open>c.table.Chunker != nil && !c.disableKeyAboveWatermarkOptimization &&
  c.table.Chunker.KeyAboveHighWatermark(key[0])\<close>.
  Go evaluates \<open>&&\<close> from the left and stops at the first false operand, so \<open>key[0]\<close> is
  read only when a chunker is attached and the optimization is not disabled; on an
  empty key that read panics, which is the result \<open>None\<close>.
\<close>

definition keyAboveWatermarkFilter :: "'v Client \<Rightarrow> 'v list \<Rightarrow> bool option" where
  "keyAboveWatermarkFilter c key =
     (case Chunker (table c) of
        None \<Rightarrow> Some False
      | Some KeyAboveHighWatermark \<Rightarrow>
          if disableKeyAboveWatermarkOptimization c then Some False
          else (case key of [] \<Rightarrow> None | k0 # _ \<Rightarrow> Some (KeyAboveHighWatermark k0)))"





subsection \<open>Flush\<close>

text \<open>
  \<open>dbconn.RetryableTransaction\<close> is a collaborator: \<open>rt n dks rks\<close> is the outcome of
  the \<open>n\<close>-th call made by one \<open>Flush\<close> (counted from 0), whose DELETE statement is built
  from the keys \<open>dks\<close> and whose REPLACE statement from the keys \<open>rks\<close>; \<open>None\<close> is success
  and \<open>Some e\<close> the error left after the retries.
\<close>

type_synonym retryable = "nat \<Rightarrow> string list \<Rightarrow> string list \<Rightarrow> error option"

text \<open>
  The local variables of \<open>Flush\<close> next to the client, and two pieces of bookkeeping that
  the Go code does not store: \<open>txnCount\<close>, the number of transactions issued so far,
  and \<open>appliedCount\<close>, the number of captured entries that a successful transaction has
  carried. \<open>deltaLog\<close> lists, in order, every value written to \<open>binlogChangesetDelta\<close>
  while \<open>Flush\<close> runs (the deferred reset excluded), each with \<open>appliedCount\<close> at the
  moment of the write.
\<close>

record 'v flushState =
  fclient :: "'v Client"
  deleteKeys :: "string list"
  replaceKeys :: "string list"
  rangeCount :: nat
  txnCount :: nat
  appliedCount :: nat
  deltaLog :: "(int \<times> nat) list"

definition storeDelta :: "int \<Rightarrow> 'v flushState \<Rightarrow> 'v flushState" where
  "storeDelta d s =
     s\<lparr>fclient := (fclient s)\<lparr>binlogChangesetDelta := d\<rparr>,
       deltaLog := deltaLog s @ [(d, appliedCount s)]\<rparr>"

text \<open>\<open>doFlush\<close>: one retryable transaction for the two key batches; on success both
  batches are emptied.\<close>

definition doFlush :: "retryable \<Rightarrow> 'v flushState \<Rightarrow> error option \<times> 'v flushState" where
  "doFlush rt s =
     (case rt (txnCount s) (deleteKeys s) (replaceKeys s) of
        Some e \<Rightarrow> (Some e, s\<lparr>txnCount := txnCount s + 1\<rparr>)
      | None \<Rightarrow>
          (None, s\<lparr>txnCount := txnCount s + 1,
                   appliedCount := appliedCount s + length (deleteKeys s) + length (replaceKeys s),
                   deleteKeys := [], replaceKeys := []\<rparr>))"

text \<open>The \<open>for key, isDelete := range setToFlush\<close> loop, over the entries in the order
  in which \<open>range\<close> yields them. \<open>rangeCount\<close> is the variable \<open>i\<close>.\<close>

fun Flush_range :: "retryable \<Rightarrow> (string \<times> bool) list \<Rightarrow> 'v flushState \<Rightarrow> error option \<times> 'v flushState" where
  "Flush_range rt [] s = (None, s)"
| "Flush_range rt ((key, isDelete) # rest) s =
     (let s1 = s\<lparr>rangeCount := rangeCount s + 1,
                 deleteKeys := (if isDelete then deleteKeys s @ [key] else deleteKeys s),
                 replaceKeys := (if isDelete then replaceKeys s else replaceKeys s @ [key])\<rparr>
      in if rangeCount s1 mod 10000 = 0
         then (case doFlush rt s1 of
                 (Some e, s2) \<Rightarrow> (Some e, s2)
               | (None, s2) \<Rightarrow>
                   Flush_range rt rest
                     (storeDelta (binlogChangesetDelta (fclient s2) - 10000) s2))
         else Flush_range rt rest s1)"

text \<open>
  \<open>Flush\<close>. The order in which Go's \<open>range\<close> yields the entries of a map is not
  specified, so it is the parameter \<open>its\<close>: some enumeration of the captured map. The
  result is the returned error, the client when \<open>Flush\<close> has returned (the deferred
  function has run), and the log of the delta.
\<close>

definition Flush :: "retryable \<Rightarrow> (string \<times> bool) list \<Rightarrow> 'v Client \<Rightarrow> error option \<times> 'v Client \<times> (int \<times> nat) list" where
  "Flush rt its c =
     (let setToFlush = binlogChangeset c;
          posOfFlush = binlogPosInMemory c;
          c1 = c\<lparr>binlogChangeset := []\<rparr>;
          s0 = storeDelta (int (length setToFlush))
                 \<lparr>fclient = c1, deleteKeys = [], replaceKeys = [], rangeCount = 0,
                  txnCount = 0, appliedCount = 0, deltaLog = []\<rparr>;
          deferred = (\<lambda>d. d\<lparr>changesetRowsCount := changesetRowsCount d + of_nat (length setToFlush),
                              binlogChangesetDelta := 0\<rparr>)
      in case Flush_range rt its s0 of
           (Some e, s) \<Rightarrow> (Some e, deferred (fclient s), deltaLog s)
         | (None, s) \<Rightarrow>
             (case doFlush rt s of
                (err, s') \<Rightarrow> (err, deferred (SetPos (fclient s') posOfFlush), deltaLog s')))"

subsection \<open>Run\<close>

text \<open>
  What the database answers while \<open>Run\<close> executes: the outcome of \<open>canal.NewCanal\<close>, of
  \<open>SHOW MASTER STATUS\<close> (scanned into a position) and of \<open>SHOW MASTER LOGS\<close>. For the
  latter the query or the column listing may fail; otherwise each row either scans
  (\<open>Some logname\<close>) or fails to scan (\<open>None\<close>). The rows are the same for the two- and
  three-column layouts: both branches scan the log name first and use nothing else.
\<close>

datatype masterLogs = QueryFailed | ColumnsFailed | LogRows "string option list"

record dbServer =
  newCanal :: "error option"
  showMasterStatus :: "error + Position"
  showMasterLogs :: masterLogs

fun scanLogs :: "string \<Rightarrow> string option list \<Rightarrow> bool" where
  "scanLogs name [] = True"
| "scanLogs name (None # rows) = True"
| "scanLogs name (Some logname # rows) = (if logname = name then False else scanLogs name rows)"

text \<open>\<open>binlogPositionIsImpossible\<close>; \<open>p\<close> is \<open>*c.binlogPosSynced\<close>, which \<open>Run\<close> has found
  to be non-nil before the call.\<close>

definition binlogPositionIsImpossible :: "dbServer \<Rightarrow> Position \<Rightarrow> bool" where
  "binlogPositionIsImpossible srv p =
     (case showMasterLogs srv of
        QueryFailed \<Rightarrow> True
      | ColumnsFailed \<Rightarrow> True
      | LogRows rows \<Rightarrow> scanLogs (Name p) rows)"

definition startCanalFrom :: "'v Client \<Rightarrow> Position \<Rightarrow> error option \<times> 'v Client" where
  "startCanalFrom c p =
     (None, c\<lparr>binlogPosInMemory := Some p, lastLogFileName := Name p, canalRunFrom := Some p\<rparr>)"

definition Client_Run :: "dbServer \<Rightarrow> 'v Client \<Rightarrow> error option \<times> 'v Client" where
  "Client_Run srv c =
     (case newCanal srv of
        Some e \<Rightarrow> (Some e, c\<lparr>canalCreated := False\<rparr>)
      | None \<Rightarrow>
          (let c1 = c\<lparr>canalCreated := True\<rparr>
           in case binlogPosSynced c1 of
                None \<Rightarrow>
                  (case showMasterStatus srv of
                     Inl e \<Rightarrow>
                       (Some (Err ''failed to get binlog position, check binary is enabled''), c1)
                   | Inr p \<Rightarrow> startCanalFrom (c1\<lparr>binlogPosSynced := Some p\<rparr>) p)
              | Some p \<Rightarrow>
                  if binlogPositionIsImpossible srv p
                  then (Some (Err ''binlog position is impossible, the source may have already purged it''), c1)
                  else startCanalFrom c1 p))"

section \<open>Double-precision arithmetic\<close>

text \<open>
  The copier computes its percentage, its rate and its estimate in \<open>float64\<close>. A finite
  double is represented by the rational number it denotes. Every operation of IEEE 754
  returns the exact result rounded to the nearest double, ties to the even significand;
  \<open>f64_round\<close> is that rounding for a significand of 53 bits. The exponent range is not
  represented: the magnitudes that occur here lie between \<open>2^-64\<close> and \<open>2^94\<close>, well
  inside the range of normal doubles. Division by zero yields an infinity or a NaN; no
  operand here is negative.
\<close>

definition round_half_even :: "rat \<Rightarrow> int" where
  "round_half_even x =
     (let f = \<lfloor>x\<rfloor>; r = x - of_int f
      in if r < 1 / 2 then f else if 1 / 2 < r then f + 1 else if even f then f else f + 1)"

text \<open>For \<open>0 < x\<close>, \<open>ilog2 x\<close> is the integer \<open>k\<close> with \<open>2^k \<le> x < 2^(k+1)\<close>.\<close>

definition ilog2 :: "rat \<Rightarrow> int" where
  "ilog2 x =
     (let k = bitlen (fst (quotient_of x)) - bitlen (snd (quotient_of x))
      in if 2 powi k \<le> x then k else k - 1)"

definition f64_round :: "rat \<Rightarrow> rat" where
  "f64_round x =
     (if x = 0 then 0
      else sgn x * of_int (round_half_even (\<bar>x\<bar> / 2 powi (ilog2 \<bar>x\<bar> - 52))) * 2 powi (ilog2 \<bar>x\<bar> - 52))"

datatype f64 = Finite rat | PosInf | NaN

definition f64_of_u64 :: "64 word \<Rightarrow> f64" where
  "f64_of_u64 w = Finite (f64_round (of_nat (unat w)))"

definition f64_of_int :: "int \<Rightarrow> f64" where
  "f64_of_int i = Finite (f64_round (of_int i))"

text \<open>A decimal constant of the source text denotes the nearest double.\<close>

definition f64_const :: "rat \<Rightarrow> f64" where
  "f64_const q = Finite (f64_round q)"

fun f64_div :: "f64 \<Rightarrow> f64 \<Rightarrow> f64" where
  "f64_div (Finite a) (Finite b) =
     (if b = 0 then (if a = 0 then NaN else PosInf) else Finite (f64_round (a / b)))"
| "f64_div (Finite a) PosInf = Finite 0"
| "f64_div PosInf (Finite b) = PosInf"
| "f64_div _ _ = NaN"

fun f64_mul :: "f64 \<Rightarrow> f64 \<Rightarrow> f64" where
  "f64_mul (Finite a) (Finite b) = Finite (f64_round (a * b))"
| "f64_mul PosInf (Finite b) = (if b = 0 then NaN else PosInf)"
| "f64_mul (Finite a) PosInf = (if a = 0 then NaN else PosInf)"
| "f64_mul PosInf PosInf = PosInf"
| "f64_mul _ _ = NaN"

text \<open>\<open>x > y\<close>: false as soon as one side is a NaN.\<close>

fun f64_gt :: "f64 \<Rightarrow> f64 \<Rightarrow> bool" where
  "f64_gt (Finite a) (Finite b) = (b < a)"
| "f64_gt PosInf (Finite b) = True"
| "f64_gt _ _ = False"

text \<open>\<open>math.Floor\<close>.\<close>

fun f64_floor :: "f64 \<Rightarrow> f64" where
  "f64_floor (Finite a) = Finite (of_int \<lfloor>a\<rfloor>)"
| "f64_floor x = x"

text \<open>
  The conversions \<open>uint64(x)\<close> and \<open>int64(x)\<close> of a double discard the fraction. When the
  value does not fit the target type, Go leaves the result to the implementation: it is
  the parameter \<open>oor\<close>.
\<close>

fun f64_to_u64 :: "64 word \<Rightarrow> f64 \<Rightarrow> 64 word" where
  "f64_to_u64 oor (Finite a) = (if 0 \<le> a \<and> a < 2 ^ 64 then word_of_int \<lfloor>a\<rfloor> else oor)"
| "f64_to_u64 oor x = oor"

fun f64_to_i64 :: "int \<Rightarrow> f64 \<Rightarrow> int" where
  "f64_to_i64 oor (Finite a) = (if - (2 ^ 63) \<le> a \<and> a < 2 ^ 63 then (if 0 \<le> a then \<lfloor>a\<rfloor> else \<lceil>a\<rceil>) else oor)"
| "f64_to_i64 oor x = oor"

section \<open>The copier (pkg/row/copier.go)\<close>

subsection \<open>Data\<close>

text \<open>\<open>time.Duration\<close> counts nanoseconds.\<close>

definition Second :: int where "Second = 1000000000"
definition Minute :: int where "Minute = 60 * Second"
definition copyEstimateInterval :: int where "copyEstimateInterval = 10 * Second"
definition copyETAInitialWaitTime :: int where "copyETAInitialWaitTime = 1 * Minute"

text \<open>\<open>table.Chunk\<close>: its WHERE fragment (\<open>chunk.String()\<close>) and its logical size.\<close>

record Chunk =
  ChunkString :: string
  ChunkSize :: "64 word"

text \<open>
  The fields of \<open>table.TableInfo\<close> that the copier reads (the copier is built against a
  later version of the table package than the client). \<open>MaxValueUint\<close> is the outcome of
  \<open>strconv.ParseUint(c.table.MaxValue().String(), 10, 64)\<close>, \<open>None\<close> when it returns an
  error.
\<close>

record CopyTableInfo =
  KeyIsAutoInc :: bool
  EstimatedRows :: "64 word"
  MaxValueUint :: "64 word option"

text \<open>
  The calls that the copier makes to its collaborators and to the runtime.
\<close>

datatype effect =
    LoggerInfo string
  | LoggerDebug string
  | LoggerError string
  | TimeSleep int
  | ChunkerOpen
  | ChunkerIsRead
  | ChunkerNext
  | ThrottlerBlockWait
  | RetryableTransaction Chunk
  | AtomicAddUint64 string "64 word"
  | ChunkerFeedback Chunk
  | MetricsSinkSend
  | GoEstimateRowsPerSecondLoop
  | GroupSetLimit int
  | GroupGo
  | GroupWait

record Copier =
  copierTable :: CopyTableInfo
  concurrency :: int
  finalChecksum :: bool
  CopyRowsCount :: "64 word"
  CopyRowsLogicalCount :: "64 word"
  CopyChunksCount :: "64 word"
  rowsPerSecond :: "64 word"
  isInvalid :: bool
  isOpen :: bool


subsection \<open>Construction\<close>



definition isHealthy :: "bool \<Rightarrow> Copier \<Rightarrow> bool" where
  "isHealthy ctxErr c = (if ctxErr then False else \<not> isInvalid c)"


subsection \<open>The workers\<close>


text \<open>
  \<open>Run\<close> hands the same function to \<open>g.Go\<close> at every turn of its loop, and the group runs
  each of them in a goroutine of its own: the workers run concurrently with the driver
  and with one another, on the one copier. A worker is therefore a program point, and
  moves by one call or one atomic operation at a time. The points are those of the
  function literal in \<open>Run\<close> and, from \<open>AtBlockWait\<close> to \<open>AtLogMetricsError\<close>, of the
  \<open>CopyChunk\<close> that it calls; each names the operation that the worker executes next.
  From the transaction on, a point carries the chunk and the affected rows that the
  transaction returned (\<open>uint64(affectedRows)\<close>). \<open>AtSetInvalid\<close> and \<open>AtReturn\<close> carry the
  chunk, if one had been obtained, and the error that the worker is about to return.

  A worker that has returned keeps its outcome: the chunker had nothing left
  (\<open>ErrTableIsRead\<close>, returned as nil); the chunk was copied, with the affected rows
  and whether the metrics sink failed (returned as nil); or an error.
\<close>

datatype outcome =
    TableRead
  | Copied Chunk "64 word" bool
  | Failed "Chunk option" error

datatype wpc =
    AtLog
  | AtSleep
  | AtNext
  | AtBlockWait Chunk
  | AtDebug Chunk
  | AtTransaction Chunk
  | AtAddRows Chunk "64 word"
  | AtAddLogical Chunk "64 word"
  | AtAddChunks Chunk "64 word"
  | AtFeedback Chunk "64 word"
  | AtSendMetrics Chunk "64 word"
  | AtLogMetricsError Chunk "64 word"
  | AtSetInvalid "Chunk option" error
  | AtReturn "Chunk option" error
  | Finished outcome

text \<open>
  What the outside answers to the operation that a goroutine executes: to the driver,
  what \<open>c.chunker.IsRead()\<close> returns and whether the context handed to \<open>Run\<close> carries an
  error; to a worker, the outcome of \<open>c.chunker.Next()\<close>, of the retryable transaction
  (the affected rows, an \<open>int64\<close>, or an error) and of the metrics sink. An operation
  reads the answer that concerns it and no other.
\<close>

record answers =
  chunkerIsRead :: bool
  ctxErr :: bool
  nextResult :: "error + Chunk"
  txnResult :: "error + 64 word"
  metricsResult :: "error option"



subsection \<open>The driver\<close>

text \<open>
  The goroutines of a run are the driver, which executes \<open>Run\<close>, and the workers,
  numbered in the order in which \<open>g.Go\<close> started them. The driver is at the call of
  \<open>c.chunker.IsRead()\<close>, at the call of \<open>c.isHealthy(errGrpCtx)\<close>, at \<open>g.Go\<close>, at
  \<open>g.Wait()\<close>, or has returned.
\<close>

datatype thread = Driver | Worker nat

datatype dpc = AtIsRead | AtIsHealthy | AtGo | AtWait | RunReturned "error option"

text \<open>
  The state of a run: the copier; where the driver and each worker are; the first
  error that a worker has returned, which the group keeps for \<open>g.Wait()\<close>; and the
  calls made so far, each with the goroutine that made it.
\<close>

record run =
  cop :: Copier
  drv :: dpc
  wks :: "wpc list"
  groupErr :: "error option"
  callLog :: "(thread \<times> effect) list"






subsection \<open>Progress and estimates\<close>

definition getCopyStats :: "Copier \<Rightarrow> 64 word \<times> 64 word \<times> f64" where
  "getCopyStats c =
     (if KeyIsAutoInc (copierTable c)
      then (let copyRows = CopyRowsLogicalCount c;
                maxValue = (case MaxValueUint (copierTable c) of
                              Some m \<Rightarrow> m
                            | None \<Rightarrow> EstimatedRows (copierTable c));
                pct = f64_mul (f64_div (f64_of_u64 copyRows) (f64_of_u64 maxValue)) (f64_of_int 100)
            in (copyRows, maxValue, pct))
      else (let pct = f64_mul (f64_div (f64_of_u64 (CopyRowsCount c))
                                       (f64_of_u64 (EstimatedRows (copierTable c))))
                              (f64_of_int 100)
            in (CopyRowsCount c, EstimatedRows (copierTable c), pct)))"

text \<open>
  What \<open>GetETA\<close> takes from outside: the time since the start, the rendering of a
  duration (\<open>Duration.String\<close>), the answer of the history of estimates, which belongs to
  the package but not to the translated files, and the value of an out-of-range
  conversion to \<open>time.Duration\<close>.
\<close>

record etaEnv =
  sinceStartTime :: int
  durationString :: "int \<Rightarrow> string"
  addCurrentEstimateAndCompare :: "int \<Rightarrow> string"
  durationOutOfRange :: int

definition GetETA :: "etaEnv \<Rightarrow> Copier \<Rightarrow> string" where
  "GetETA env c =
     (case getCopyStats c of
        (copiedRows, totalRows, pct) \<Rightarrow>
          if f64_gt pct (f64_const (9999 / 100)) then ''DUE''
          else if rowsPerSecond c = 0 \<or> sinceStartTime env < copyETAInitialWaitTime then ''TBD''
          else (let remainingRows = totalRows - copiedRows;
                    remainingSeconds = f64_floor (f64_div (f64_of_u64 remainingRows)
                                                          (f64_of_u64 (rowsPerSecond c)));
                    estimate = f64_to_i64 (durationOutOfRange env)
                                 (f64_mul remainingSeconds (f64_of_int Second));
                    comparison = addCurrentEstimateAndCompare env estimate
                in if comparison \<noteq> []
                   then durationString env estimate @ '' ('' @ comparison @ '')''
                   else durationString env estimate))"

subsection \<open>The rows-per-second estimator\<close>

definition sampleRowsCount :: "Copier \<Rightarrow> 64 word" where
  "sampleRowsCount c =
     (if KeyIsAutoInc (copierTable c) then CopyRowsLogicalCount c else CopyRowsCount c)"

text \<open>The body of \<open>case <-ticker.C\<close> after the health check: the new rate is stored and
  the sampled count becomes the previous one.\<close>

definition estimateTick :: "64 word \<Rightarrow> Copier \<Rightarrow> 64 word \<Rightarrow> Copier \<times> 64 word" where
  "estimateTick oor c prevRowsCount =
     (let newRowsCount = sampleRowsCount c;
          rowsPerInterval = f64_of_u64 (newRowsCount - prevRowsCount);
          intervalsDivisor = f64_of_int (copyEstimateInterval div Second);
          rps = f64_to_u64 oor (f64_div rowsPerInterval intervalsDivisor)
      in (c\<lparr>rowsPerSecond := rps\<rparr>, newRowsCount))"

text \<open>
  The loop wakes up either because the context is done or because the ticker, set to
  \<open>copyEstimateInterval\<close>, has fired. A tick carries what the loop finds at that moment:
  whether the context has an error, and the two counters as the workers have left them.
  The result is the copier and whether the loop has returned.
\<close>

datatype wake = CtxDone | Tick bool "64 word" "64 word"

fun estimateLoop :: "64 word \<Rightarrow> wake list \<Rightarrow> Copier \<Rightarrow> 64 word \<Rightarrow> Copier \<times> bool" where
  "estimateLoop oor [] c prevRowsCount = (c, False)"
| "estimateLoop oor (CtxDone # ws) c prevRowsCount = (c, True)"
| "estimateLoop oor (Tick err n l # ws) c prevRowsCount =
     (let c0 = c\<lparr>CopyRowsCount := n, CopyRowsLogicalCount := l\<rparr>
      in if \<not> isHealthy err c0 then (c0, True)
         else (case estimateTick oor c0 prevRowsCount of
                 (c1, newRowsCount) \<Rightarrow> estimateLoop oor ws c1 newRowsCount))"

definition estimateRowsPerSecondLoop :: "64 word \<Rightarrow> wake list \<Rightarrow> Copier \<Rightarrow> Copier \<times> bool" where
  "estimateRowsPerSecondLoop oor ws c = estimateLoop oor ws c (sampleRowsCount c)"

section \<open>The claims in the terms of the specification\<close>

subsection \<open>What a window of row events records\<close>



subsection \<open>Concrete inputs\<close>

text \<open>
  A table whose primary key is made of its first two columns, with natural numbers for
  column values, once with no chunker attached and once with a chunker whose high
  watermark stands at 1000; a fingerprint that writes each key column in unary; and a
  window of five row events on two keys.
\<close>

definition ex_HashKey :: "nat list \<Rightarrow> string" where
  "ex_HashKey key = concat (map (\<lambda>n. replicate n CHR ''x'' @ ''-'') key)"

definition ex_table :: "nat TableInfo" where
  "ex_table = \<lparr>SchemaName = ''test'', TableName = ''t1'',
                ExtractPrimaryKeyFromRowImage = take 2, Chunker = None\<rparr>"



subsection \<open>The delta during a flush\<close>

text \<open>
  With \<open>n\<close> captured entries, the specification has the delta start at \<open>n\<close> and drop by
  the batch size each time a full batch has been applied: after \<open>k\<close> batches it is
  \<open>n - 10000 k\<close>, with \<open>10000 k\<close> entries applied. \<open>spec_deltaLog n m\<close> is that sequence up
  to the \<open>m\<close>-th batch. \<open>flushInv\<close> is what holds of the loop of \<open>Flush\<close> between two
  iterations.
\<close>

definition spec_deltaLog :: "nat \<Rightarrow> nat \<Rightarrow> (int \<times> nat) list" where
  "spec_deltaLog n m = map (\<lambda>k. (int n - 10000 * int k, 10000 * k)) [0..<Suc m]"

definition flushInv :: "nat \<Rightarrow> 'v flushState \<Rightarrow> bool" where
  "flushInv n s =
     (deltaLog s = spec_deltaLog n (rangeCount s div 10000) \<and>
      binlogChangesetDelta (fclient s) = int n - 10000 * int (rangeCount s div 10000) \<and>
      appliedCount s = 10000 * (rangeCount s div 10000) \<and>
      length (deleteKeys s) + length (replaceKeys s) = rangeCount s mod 10000)"

text \<open>
  A tracker with two captured entries, a synced position at offset 100 and an in-memory
  position at offset 200, and two databases: one on which every transaction fails for
  good, one on which every transaction succeeds.
\<close>

definition ex_flushing_client :: "nat Client" where
  "ex_flushing_client =
     (NewClient ex_table)
       \<lparr>binlogChangeset := [(''xxxxxxx-x-'', False), (''xxxxxxxxx-xx-'', True)],
        binlogPosSynced := Some \<lparr>Name = ''binlog.000001'', Pos = 100\<rparr>,
        binlogPosInMemory := Some \<lparr>Name = ''binlog.000001'', Pos = 200\<rparr>\<rparr>"

definition ex_rt_fails :: retryable where
  "ex_rt_fails n dks rks = Some (Err ''Error 1290: the server is read-only'')"

definition ex_rt_ok :: retryable where
  "ex_rt_ok n dks rks = None"

text \<open>
  A tracker with 10000 captured entries, one full batch: the keys \<open>(i, 1)\<close> for
  \<open>i < 10000\<close>, the odd ones deleted.
\<close>

definition ex_batch_client :: "nat Client" where
  "ex_batch_client =
     (NewClient ex_table)
       \<lparr>binlogChangeset := map (\<lambda>i. (ex_HashKey [i, 1], odd i)) [0..<10000],
        binlogPosSynced := Some \<lparr>Name = ''binlog.000001'', Pos = 100\<rparr>,
        binlogPosInMemory := Some \<lparr>Name = ''binlog.000001'', Pos = 200\<rparr>\<rparr>"

subsection \<open>The log enumeration at start\<close>

text \<open>
  The log file of a position is found when \<open>SHOW MASTER LOGS\<close> answers and the file name
  is among the rows read before any row fails to scan.
\<close>

definition spec_logFileFound :: "string \<Rightarrow> masterLogs \<Rightarrow> bool" where
  "spec_logFileFound name logs =
     (case logs of
        LogRows rows \<Rightarrow> Some name \<in> set (takeWhile (\<lambda>r. r \<noteq> None) rows)
      | _ \<Rightarrow> False)"

text \<open>
  A server without binary logging, on which \<open>SHOW MASTER STATUS\<close> returns no row, and a
  server with two log files.
\<close>

definition ex_server_no_binlog :: dbServer where
  "ex_server_no_binlog =
     \<lparr>newCanal = None,
      showMasterStatus = Inl (Err ''sql: no rows in result set''),
      showMasterLogs = QueryFailed\<rparr>"

definition ex_server :: dbServer where
  "ex_server =
     \<lparr>newCanal = None,
      showMasterStatus = Inr \<lparr>Name = ''binlog.000002'', Pos = 1500\<rparr>,
      showMasterLogs = LogRows [Some ''binlog.000001'', Some ''binlog.000002'']\<rparr>"

subsection \<open>What the specification says of a run\<close>















subsection \<open>Concrete inputs for the copier\<close>










section \<open>Properties of the binlog change tracker\<close>

subsection \<open>Row events and the changeset\<close>
























text \<open>
  Claim C10. The watermark filter of \<open>OnRow\<close> reads the first column of the primary key
  and nothing else of the key: two keys with the same first column get the same
  decision, whatever their other columns are.
\<close>

theorem C10_filter_reads_first_key_column_only:
  "keyAboveWatermarkFilter c (k0 # rest) = keyAboveWatermarkFilter c (k0 # rest')"
  by (simp add: keyAboveWatermarkFilter_def split: option.splits)

subsection \<open>Flush\<close>

text \<open>
  Claim C1 says that a \<open>Flush\<close> which returns an error leaves \<open>posSynced\<close> where it was.
  The loop does so: a failed full batch returns before \<open>SetPos\<close>. The last \<open>doFlush\<close>
  does not: \<open>SetPos(posOfFlush)\<close> follows it whatever it returned. With two captured
  entries and a database on which the transaction fails, \<open>Flush\<close> returns the error and
  \<open>GetBinlogApplyPosition\<close> moves from offset 100 to offset 200, the captured
  \<open>posInMemory\<close>, although nothing was applied.
\<close>

theorem C1_failed_flush_advances_posSynced:
  "fst (Flush ex_rt_fails (binlogChangeset ex_flushing_client) ex_flushing_client)
     = Some (Err ''Error 1290: the server is read-only'') \<and>
   GetBinlogApplyPosition ex_flushing_client = Some \<lparr>Name = ''binlog.000001'', Pos = 100\<rparr> \<and>
   GetBinlogApplyPosition
     (fst (snd (Flush ex_rt_fails (binlogChangeset ex_flushing_client) ex_flushing_client)))
     = Some \<lparr>Name = ''binlog.000001'', Pos = 200\<rparr>"
  by (simp add: Flush_def Let_def doFlush_def storeDelta_def SetPos_def
      GetBinlogApplyPosition_def ex_flushing_client_def ex_rt_fails_def NewClient_def)

lemma spec_deltaLog_Suc:
  "spec_deltaLog n (Suc m) = spec_deltaLog n m @ [(int n - 10000 * int (Suc m), 10000 * Suc m)]"
  by (simp add: spec_deltaLog_def)

lemma Suc_div_mod_batch:
  "Suc r mod 10000 = 0 \<Longrightarrow> Suc r div 10000 = Suc (r div 10000) \<and> r mod 10000 = 9999"
  "Suc r mod 10000 \<noteq> 0 \<Longrightarrow> Suc r div 10000 = r div 10000 \<and> Suc r mod 10000 = Suc (r mod 10000)"
  by (auto simp add: div_Suc mod_Suc split: if_splits)

lemma Flush_range_log:
  "Flush_range rt its s = (err, s') \<Longrightarrow> flushInv n s \<Longrightarrow>
     \<exists>m. 10000 * m \<le> rangeCount s + length its \<and> deltaLog s' = spec_deltaLog n m \<and>
         (err = None \<longrightarrow> m = (rangeCount s + length its) div 10000)"
proof (induction its arbitrary: s)
  case Nil
  then show ?case
    by (auto simp add: flushInv_def intro!: exI[of _ "rangeCount s div 10000"])
next
  case (Cons p its)
  obtain key isDelete where p: "p = (key, isDelete)" by (cases p)
  let ?s1 = "s\<lparr>rangeCount := rangeCount s + 1,
                 deleteKeys := (if isDelete then deleteKeys s @ [key] else deleteKeys s),
                 replaceKeys := (if isDelete then replaceKeys s else replaceKeys s @ [key])\<rparr>"
  note inv = Cons.prems(2)[unfolded flushInv_def]
  show ?case
  proof (cases "Suc (rangeCount s) mod 10000 = 0")
    case False
    with Cons.prems p have r: "Flush_range rt its ?s1 = (err, s')" by (simp add: Let_def)
    have "flushInv n ?s1"
      using inv Suc_div_mod_batch(2)[OF False] by (auto simp add: flushInv_def)
    from Cons.IH[OF r this] show ?thesis by auto
  next
    case True
    note dm = Suc_div_mod_batch(1)[OF True]
    show ?thesis
    proof (cases "rt (txnCount ?s1) (deleteKeys ?s1) (replaceKeys ?s1)")
      case (Some e)
      with True Cons.prems p have "s' = ?s1\<lparr>txnCount := txnCount ?s1 + 1\<rparr>" and "err = Some e"
        by (simp_all add: Let_def doFlush_def)
      then have "deltaLog s' = spec_deltaLog n (rangeCount s div 10000)" and "err \<noteq> None"
        using inv by simp_all
      moreover have "10000 * (rangeCount s div 10000) \<le> rangeCount s + length (p # its)"
        by simp
      ultimately show ?thesis by blast
    next
      case None
      let ?s2 = "?s1\<lparr>txnCount := txnCount ?s1 + 1,
                   appliedCount := appliedCount ?s1 + length (deleteKeys ?s1) + length (replaceKeys ?s1),
                   deleteKeys := [], replaceKeys := []\<rparr>"
      let ?s3 = "storeDelta (binlogChangesetDelta (fclient ?s2) - 10000) ?s2"
      from None True Cons.prems p have r: "Flush_range rt its ?s3 = (err, s')"
        by (simp add: Let_def doFlush_def)
      have len: "length (deleteKeys ?s1) + length (replaceKeys ?s1) = 10000"
        using inv dm by auto
      have "flushInv n ?s3"
        using inv dm len True
        by (simp add: flushInv_def storeDelta_def spec_deltaLog_Suc)
      from Cons.IH[OF r this] show ?thesis by (auto simp add: storeDelta_def)
    qed
  qed
qed

lemma Flush_range_ok:
  "(\<forall>k dks rks. rt k dks rks = None) \<Longrightarrow> fst (Flush_range rt its s) = None"
proof (induction its arbitrary: s)
  case Nil
  then show ?case by simp
next
  case (Cons p its)
  obtain key isDelete where p: "p = (key, isDelete)" by (cases p)
  show ?case
    using Cons.prems Cons.IH[OF Cons.prems] by (simp add: p Let_def doFlush_def)
qed

text \<open>
  Claim C7 ends on "the reported pending work never collapses to zero while captured
  entries remain unapplied". The deferred function of \<open>Flush\<close> stores zero in the delta on
  every exit, also on the exit with an error. With two captured entries and a database
  on which the transaction fails, \<open>Flush\<close> returns the error; the only value written to
  the delta while it ran is 2, with nothing applied; and when it has returned
  \<open>GetDeltaLen\<close> is 0, although neither of the two captured entries has been applied.
\<close>

theorem C7_failed_flush_counterexample:
  "length (binlogChangeset ex_flushing_client) = 2 \<and>
   fst (Flush ex_rt_fails (binlogChangeset ex_flushing_client) ex_flushing_client)
     = Some (Err ''Error 1290: the server is read-only'') \<and>
   snd (snd (Flush ex_rt_fails (binlogChangeset ex_flushing_client) ex_flushing_client))
     = [(2, 0)] \<and>
   GetDeltaLen
     (fst (snd (Flush ex_rt_fails (binlogChangeset ex_flushing_client) ex_flushing_client)))
     = 0"
  by (simp add: Flush_def Let_def doFlush_def storeDelta_def SetPos_def GetDeltaLen_def
      ex_flushing_client_def ex_rt_fails_def NewClient_def)

text \<open>
  Claim C7, amended. \<open>GetDeltaLen\<close> is the size of the map plus the delta. For a \<open>Flush\<close>
  of \<open>n\<close> captured entries, enumerated in any order: when \<open>Flush\<close> has returned, with
  or without an error, the delta is zero and \<open>GetDeltaLen\<close> is the size of the map
  alone. The values written to the delta while \<open>Flush\<close> runs, before that reset, are \<open>n\<close>
  right after the swap and then \<open>n - 10000 k\<close> after the \<open>k\<close>-th full batch, up to some
  batch \<open>m\<close>; when every transaction succeeds \<open>Flush\<close> returns no error and \<open>m\<close> is the
  number of full batches, \<open>n div 10000\<close>. At each of these writes the delta is the number
  of captured entries not yet applied, so that \<open>GetDeltaLen\<close> is positive as long as
  one of them is left.
\<close>

theorem C7_pending_work_during_flush:
  assumes its: "mset its = mset (binlogChangeset c)"
    and run: "Flush rt its c = (err, c', dlog)"
  shows "GetDeltaLen c' = int (length (binlogChangeset c')) + binlogChangesetDelta c' \<and>
         binlogChangesetDelta c' = 0 \<and>
         (\<exists>m. 10000 * m \<le> length (binlogChangeset c) \<and>
              dlog = spec_deltaLog (length (binlogChangeset c)) m \<and>
              (err = None \<longrightarrow> m = length (binlogChangeset c) div 10000)) \<and>
         ((\<forall>k dks rks. rt k dks rks = None) \<longrightarrow>
              err = None \<and>
              dlog = spec_deltaLog (length (binlogChangeset c))
                       (length (binlogChangeset c) div 10000)) \<and>
         (\<forall>(d, applied) \<in> set dlog. \<forall>cur :: 'b Client.
              binlogChangesetDelta cur = d \<longrightarrow>
                d = int (length (binlogChangeset c)) - int applied \<and>
                GetDeltaLen cur = int (length (binlogChangeset cur)) + d \<and>
                (applied < length (binlogChangeset c) \<longrightarrow> 0 < GetDeltaLen cur))"
proof -
  let ?n = "length (binlogChangeset c)"
  let ?s0 = "storeDelta (int ?n)
               \<lparr>fclient = c\<lparr>binlogChangeset := []\<rparr>, deleteKeys = [], replaceKeys = [],
                rangeCount = 0, txnCount = 0, appliedCount = 0, deltaLog = []\<rparr>"
  have len: "length its = ?n"
    using its by (rule mset_eq_length)
  have inv0: "flushInv ?n ?s0"
    by (simp add: flushInv_def storeDelta_def spec_deltaLog_def)
  obtain e s where fr: "Flush_range rt its ?s0 = (e, s)"
    by (cases "Flush_range rt its ?s0")
  from Flush_range_log[OF fr inv0] len obtain m where
    m: "10000 * m \<le> ?n" "deltaLog s = spec_deltaLog ?n m" "e = None \<longrightarrow> m = ?n div 10000"
    by (auto simp add: storeDelta_def)
  have res: "dlog = deltaLog s \<and> binlogChangesetDelta c' = 0 \<and> (err = None \<longrightarrow> e = None)"
  proof (cases e)
    case (Some x)
    with run fr show ?thesis by (auto simp add: Flush_def Let_def)
  next
    case None
    with run fr show ?thesis
      by (auto simp add: Flush_def Let_def doFlush_def SetPos_def split: option.splits)
  qed
  have ok: "err = None" if all: "\<forall>k dks rks. rt k dks rks = None"
  proof -
    from Flush_range_ok[OF all, of its ?s0] fr have "e = None" by simp
    with run fr all show ?thesis
      by (simp add: Flush_def Let_def doFlush_def)
  qed
  have d: "GetDeltaLen cur = int (length (binlogChangeset cur)) + binlogChangesetDelta cur"
    for cur :: "'c Client"
    by (simp add: GetDeltaLen_def)
  have dlogm: "dlog = spec_deltaLog ?n m" using res m by simp
  have el: "d = int ?n - int applied \<and> (applied < ?n \<longrightarrow> 0 < d)"
    if "(d, applied) \<in> set dlog" for d applied
    using that unfolding dlogm spec_deltaLog_def by auto
  show ?thesis
  proof (intro conjI)
    show "GetDeltaLen c' = int (length (binlogChangeset c')) + binlogChangesetDelta c'"
      by (rule d)
    show "binlogChangesetDelta c' = 0" using res by simp
    show "\<exists>m. 10000 * m \<le> ?n \<and> dlog = spec_deltaLog ?n m \<and> (err = None \<longrightarrow> m = ?n div 10000)"
      using m res dlogm by blast
    show "(\<forall>k dks rks. rt k dks rks = None) \<longrightarrow>
            err = None \<and> dlog = spec_deltaLog ?n (?n div 10000)"
      using ok m res dlogm by auto
    show "\<forall>(d, applied) \<in> set dlog. \<forall>cur :: 'b Client.
              binlogChangesetDelta cur = d \<longrightarrow>
                d = int ?n - int applied \<and>
                GetDeltaLen cur = int (length (binlogChangeset cur)) + d \<and>
                (applied < ?n \<longrightarrow> 0 < GetDeltaLen cur)"
    proof (intro ballI, clarify, intro conjI impI)
      fix d applied and cur :: "'b Client"
      assume mem: "(binlogChangesetDelta cur, applied) \<in> set dlog"
      from el[OF mem] show "binlogChangesetDelta cur = int ?n - int applied" by simp
      show "GetDeltaLen cur = int (length (binlogChangeset cur)) + binlogChangesetDelta cur"
        by (rule d)
      assume "applied < ?n"
      with el[OF mem] have "0 < binlogChangesetDelta cur" by simp
      then show "0 < GetDeltaLen cur" by (simp add: GetDeltaLen_def)
    qed
  qed
qed

text \<open>
  The flush of the 10000 captured entries of \<open>ex_batch_client\<close>, enumerated in reverse,
  on the database that succeeds: one full batch drains. The delta is written twice, as
  10000 with nothing applied and as 0 with 10000 applied; \<open>Flush\<close> returns no error; a
  tracker whose delta is 10000 reports pending work; and the delta is 0 at the end.
\<close>

theorem C7_pending_work_during_flush_witness:
  "mset (rev (binlogChangeset ex_batch_client)) = mset (binlogChangeset ex_batch_client) \<and>
   (\<forall>k dks rks. ex_rt_ok k dks rks = None) \<and>
   fst (Flush ex_rt_ok (rev (binlogChangeset ex_batch_client)) ex_batch_client) = None \<and>
   snd (snd (Flush ex_rt_ok (rev (binlogChangeset ex_batch_client)) ex_batch_client))
     = [(10000, 0), (0, 10000)] \<and>
   binlogChangesetDelta
     (fst (snd (Flush ex_rt_ok (rev (binlogChangeset ex_batch_client)) ex_batch_client))) = 0 \<and>
   0 < GetDeltaLen ((NewClient ex_table)\<lparr>binlogChangesetDelta := 10000\<rparr>)"
proof -
  let ?F = "Flush ex_rt_ok (rev (binlogChangeset ex_batch_client)) ex_batch_client"
  have h: "mset (rev (binlogChangeset ex_batch_client)) = mset (binlogChangeset ex_batch_client)"
    by simp
  have r: "?F = (fst ?F, fst (snd ?F), snd (snd ?F))"
    by simp
  have ok: "\<forall>k dks rks. ex_rt_ok k dks rks = None"
    by (simp add: ex_rt_ok_def)
  have n: "length (binlogChangeset ex_batch_client) = 10000"
    by (simp add: ex_batch_client_def)
  have sp: "spec_deltaLog 10000 (Suc 0) = [(10000, 0), (0, 10000)]"
    by (simp add: spec_deltaLog_def)
  note th = C7_pending_work_during_flush[OF h r, where ?'b = nat, unfolded n]
  from th have a: "binlogChangesetDelta (fst (snd ?F)) = 0"
    by blast
  from th ok have e: "fst ?F = None"
    by blast
  from th ok have "snd (snd ?F) = spec_deltaLog 10000 (10000 div 10000)"
    by blast
  then have l: "snd (snd ?F) = [(10000, 0), (0, 10000)]"
    by (simp add: sp)
  from th have "\<forall>(d, applied) \<in> set (snd (snd ?F)). \<forall>cur :: nat Client.
              binlogChangesetDelta cur = d \<longrightarrow>
                d = int 10000 - int applied \<and>
                GetDeltaLen cur = int (length (binlogChangeset cur)) + d \<and>
                (applied < 10000 \<longrightarrow> 0 < GetDeltaLen cur)"
    by blast
  then have "0 < GetDeltaLen ((NewClient ex_table)\<lparr>binlogChangesetDelta := 10000\<rparr>)"
    unfolding l by simp
  with a e l h ok show ?thesis by simp
qed

subsection \<open>Run\<close>

lemma scanLogs_spec:
  "scanLogs name rows = (Some name \<notin> set (takeWhile (\<lambda>r. r \<noteq> None) rows))"
  by (induction name rows rule: scanLogs.induct) auto

lemma binlogPositionIsImpossible_spec:
  "binlogPositionIsImpossible srv p = (\<not> spec_logFileFound (Name p) (showMasterLogs srv))"
  by (simp add: binlogPositionIsImpossible_def spec_logFileFound_def scanLogs_spec
      split: masterLogs.splits)

text \<open>
  Claim C6 lets \<open>Run\<close> end in one of two ways: the unrecoverable-position error when the
  log file of a supplied position is absent, and otherwise the consumer is spawned and
  nil returned, a tracker without a prior position taking the server's current one.
  On a server where \<open>SHOW MASTER STATUS\<close> fails, \<open>Run\<close> on a tracker without a prior
  position returns an error, has no synced position and spawns nothing.
\<close>

theorem C6_run_counterexample:
  "binlogPosSynced (NewClient ex_table) = None \<and>
   fst (Client_Run ex_server_no_binlog (NewClient ex_table))
     = Some (Err ''failed to get binlog position, check binary is enabled'') \<and>
   binlogPosSynced (snd (Client_Run ex_server_no_binlog (NewClient ex_table))) = None \<and>
   canalRunFrom (snd (Client_Run ex_server_no_binlog (NewClient ex_table))) = None"
  by (simp add: Client_Run_def Let_def ex_server_no_binlog_def NewClient_def)

text \<open>
  Claim C6, as the code has it. \<open>Run\<close> first builds the canal and returns its error if
  that fails. Then, without a prior synced position, it reads the server's current
  master position: if the read fails it returns an error and spawns nothing, otherwise
  that position becomes \<open>posSynced\<close>, the consumer is spawned from it and nil is
  returned. With a prior position, the consumer is spawned from it and nil is returned
  when its log file is found in the server's log enumeration; otherwise \<open>Run\<close> returns
  the unrecoverable-position error and spawns nothing. A file that is not listed is
  never found, and when every row scans, a file is found exactly when it is listed.
\<close>

theorem C6_run_start:
  assumes "Client_Run srv c = (err, c')"
  shows "(case newCanal srv of
            Some e \<Rightarrow> err = Some e \<and> canalRunFrom c' = canalRunFrom c
          | None \<Rightarrow>
              (case binlogPosSynced c of
                 None \<Rightarrow>
                   (case showMasterStatus srv of
                      Inl e \<Rightarrow>
                        err = Some (Err ''failed to get binlog position, check binary is enabled'') \<and>
                        binlogPosSynced c' = None \<and> canalRunFrom c' = canalRunFrom c
                    | Inr p \<Rightarrow>
                        err = None \<and> binlogPosSynced c' = Some p \<and> canalRunFrom c' = Some p \<and>
                        binlogPosInMemory c' = Some p \<and> lastLogFileName c' = Name p)
               | Some p \<Rightarrow>
                   if spec_logFileFound (Name p) (showMasterLogs srv)
                   then err = None \<and> binlogPosSynced c' = Some p \<and> canalRunFrom c' = Some p \<and>
                        binlogPosInMemory c' = Some p \<and> lastLogFileName c' = Name p
                   else err = Some (Err ''binlog position is impossible, the source may have already purged it'') \<and>
                        binlogPosSynced c' = Some p \<and> canalRunFrom c' = canalRunFrom c)) \<and>
         (\<forall>name rows. Some name \<notin> set rows \<longrightarrow> \<not> spec_logFileFound name (LogRows rows)) \<and>
         (\<forall>name rows. None \<notin> set rows \<longrightarrow>
            spec_logFileFound name (LogRows rows) = (Some name \<in> set rows))"
proof (intro conjI allI impI)
  show "case newCanal srv of
            Some e \<Rightarrow> err = Some e \<and> canalRunFrom c' = canalRunFrom c
          | None \<Rightarrow>
              (case binlogPosSynced c of
                 None \<Rightarrow>
                   (case showMasterStatus srv of
                      Inl e \<Rightarrow>
                        err = Some (Err ''failed to get binlog position, check binary is enabled'') \<and>
                        binlogPosSynced c' = None \<and> canalRunFrom c' = canalRunFrom c
                    | Inr p \<Rightarrow>
                        err = None \<and> binlogPosSynced c' = Some p \<and> canalRunFrom c' = Some p \<and>
                        binlogPosInMemory c' = Some p \<and> lastLogFileName c' = Name p)
               | Some p \<Rightarrow>
                   if spec_logFileFound (Name p) (showMasterLogs srv)
                   then err = None \<and> binlogPosSynced c' = Some p \<and> canalRunFrom c' = Some p \<and>
                        binlogPosInMemory c' = Some p \<and> lastLogFileName c' = Name p
                   else err = Some (Err ''binlog position is impossible, the source may have already purged it'') \<and>
                        binlogPosSynced c' = Some p \<and> canalRunFrom c' = canalRunFrom c)"
  proof (cases "newCanal srv")
    case (Some e)
    with assms have "err = Some e" and "c' = c\<lparr>canalCreated := False\<rparr>"
      by (simp_all add: Client_Run_def)
    then show ?thesis by (simp add: Some)
  next
    case None
    note nc = this
    show ?thesis
    proof (cases "binlogPosSynced c")
      case None
      note np = this
      show ?thesis
      proof (cases "showMasterStatus srv")
        case (Inl e)
        with assms nc np
        have "err = Some (Err ''failed to get binlog position, check binary is enabled'')"
          and "c' = c\<lparr>canalCreated := True\<rparr>"
          by (simp_all add: Client_Run_def Let_def)
        then show ?thesis by (simp add: nc np Inl)
      next
        case (Inr p)
        with assms nc np
        have "err = None"
          and "c' = c\<lparr>canalCreated := True, binlogPosSynced := Some p,
                       binlogPosInMemory := Some p, lastLogFileName := Name p,
                       canalRunFrom := Some p\<rparr>"
          by (simp_all add: Client_Run_def Let_def startCanalFrom_def)
        then show ?thesis by (simp add: nc np Inr)
      qed
    next
      case (Some p)
      note sp = this
      show ?thesis
      proof (cases "spec_logFileFound (Name p) (showMasterLogs srv)")
        case True
        with assms nc sp
        have "err = None"
          and "c' = c\<lparr>canalCreated := True, binlogPosInMemory := Some p,
                       lastLogFileName := Name p, canalRunFrom := Some p\<rparr>"
          by (simp_all add: Client_Run_def Let_def startCanalFrom_def binlogPositionIsImpossible_spec)
        then show ?thesis by (simp add: nc sp True)
      next
        case False
        with assms nc sp
        have "err = Some (Err ''binlog position is impossible, the source may have already purged it'')"
          and "c' = c\<lparr>canalCreated := True\<rparr>"
          by (simp_all add: Client_Run_def Let_def binlogPositionIsImpossible_spec)
        then show ?thesis by (simp add: nc sp False)
      qed
    qed
  qed
next
  fix name :: string and rows
  assume "Some name \<notin> set rows"
  then show "\<not> spec_logFileFound name (LogRows rows)"
    by (auto simp add: spec_logFileFound_def dest: set_takeWhileD)
next
  fix name :: string and rows :: "string option list"
  assume "None \<notin> set rows"
  then have "\<forall>r\<in>set rows. r \<noteq> None"
    by metis
  then have tw: "takeWhile (\<lambda>r. r \<noteq> None) rows = rows"
    by (simp only: takeWhile_eq_all_conv)
  show "spec_logFileFound name (LogRows rows) = (Some name \<in> set rows)"
    by (simp add: spec_logFileFound_def tw del: not_None_eq)
qed

text \<open>
  On the server with two log files: a tracker resumed at the second file is started
  from that position, one resumed at a file that is gone gets the error, and a tracker
  without a position is started at the server's current position.
\<close>

theorem C6_run_start_witness:
  "fst (Client_Run ex_server (SetPos (NewClient ex_table) (Some \<lparr>Name = ''binlog.000002'', Pos = 4\<rparr>))) = None \<and>
   canalRunFrom (snd (Client_Run ex_server (SetPos (NewClient ex_table) (Some \<lparr>Name = ''binlog.000002'', Pos = 4\<rparr>))))
     = Some \<lparr>Name = ''binlog.000002'', Pos = 4\<rparr> \<and>
   fst (Client_Run ex_server (SetPos (NewClient ex_table) (Some \<lparr>Name = ''binlog.000007'', Pos = 4\<rparr>)))
     = Some (Err ''binlog position is impossible, the source may have already purged it'') \<and>
   canalRunFrom (snd (Client_Run ex_server (NewClient ex_table)))
     = Some \<lparr>Name = ''binlog.000002'', Pos = 1500\<rparr>"
proof -
  let ?r = "\<lambda>c. Client_Run ex_server c"
  have p: "\<And>c :: nat Client. ?r c = (fst (?r c), snd (?r c))" by simp
  have f: "spec_logFileFound ''binlog.000002'' (showMasterLogs ex_server)"
          "\<not> spec_logFileFound ''binlog.000007'' (showMasterLogs ex_server)"
    by (simp_all add: spec_logFileFound_def ex_server_def)
  from C6_run_start[OF p[of "SetPos (NewClient ex_table) (Some \<lparr>Name = ''binlog.000002'', Pos = 4\<rparr>)"]] f
  have a: "fst (?r (SetPos (NewClient ex_table) (Some \<lparr>Name = ''binlog.000002'', Pos = 4\<rparr>))) = None"
    "canalRunFrom (snd (?r (SetPos (NewClient ex_table) (Some \<lparr>Name = ''binlog.000002'', Pos = 4\<rparr>))))
       = Some \<lparr>Name = ''binlog.000002'', Pos = 4\<rparr>"
    by (simp_all add: ex_server_def SetPos_def NewClient_def spec_logFileFound_def)
  from C6_run_start[OF p[of "SetPos (NewClient ex_table) (Some \<lparr>Name = ''binlog.000007'', Pos = 4\<rparr>)"]] f
  have b: "fst (?r (SetPos (NewClient ex_table) (Some \<lparr>Name = ''binlog.000007'', Pos = 4\<rparr>)))
     = Some (Err ''binlog position is impossible, the source may have already purged it'')"
    by (simp add: ex_server_def SetPos_def NewClient_def spec_logFileFound_def)
  from C6_run_start[OF p[of "NewClient ex_table"]]
  have c: "canalRunFrom (snd (?r (NewClient ex_table))) = Some \<lparr>Name = ''binlog.000002'', Pos = 1500\<rparr>"
    by (simp add: ex_server_def NewClient_def)
  from a b c show ?thesis by simp
qed

section \<open>Properties of the copier\<close>

subsection \<open>Runs of the copier\<close>
































subsection \<open>The counters\<close>









end
